theory Spec2Isabelle
  imports Main "HOL-Library.Sublist"
begin

section \<open>JavaScript values used by the job aggregator\<close>

text \<open>
  The Apps Script sources are dynamically typed.  The model fixes the types the
  JSDoc comments give: text fields are strings, scores and weights are numbers.
  Numbers are modelled as \<open>int\<close> (weights read from the Filters tab, sums of them, and
  the thresholds of the Config tab).  A property of an object that may be missing is a
  \<open>string option\<close>, \<open>None\<close> standing for \<open>undefined\<close>; an argument that may be
  missing is an option as well.

  Errors are values: \<open>Error msg\<close> is \<open>throw new Error(msg)\<close>, \<open>TypeError msg\<close> is the
  runtime's error for a method call on \<open>undefined\<close>.  Every function of the sources
  wraps its body in \<open>try { ... } catch (error) { logMessage(...); throw error; }\<close>,
  which rethrows the same error; \<open>logMessage\<close> catches everything it raises itself and
  returns nothing, so logging is left out of the model.
\<close>

datatype error = Error string | TypeError string

text \<open>\<open>!v\<close> for a property that holds a string or is missing.\<close>

fun falsy :: "string option \<Rightarrow> bool" where
  "falsy None = True"
| "falsy (Some s) = (s = [])"

text \<open>\<open>v || d\<close> for such a property and a string default.\<close>

fun orElse :: "string option \<Rightarrow> string \<Rightarrow> string" where
  "orElse None d = d"
| "orElse (Some s) d = (if s = [] then d else s)"

text \<open>\<open>`${v}`\<close>: a missing property is rendered as the text \<open>undefined\<close>.\<close>

fun interpolate :: "string option \<Rightarrow> string" where
  "interpolate None = ''undefined''"
| "interpolate (Some s) = s"

text \<open>
  \<open>String.prototype.toLowerCase\<close> on ASCII text.  The codes of \<open>A\<close> to \<open>Z\<close> are 65 to 90,
  where bit 5 (of value 32) is clear: setting it adds 32 and gives the lower-case
  letter.  A \<open>string\<close> is a list of bytes, and a byte outside ASCII is kept as it is, where
  JavaScript lowers the letters of every script (it matches a title in capitals with an
  umlaut against the keyword in small letters, the model does not): the model is that
  of the code on ASCII titles, fields and keywords only, and every concrete text below
  is ASCII.
\<close>

definition toLowerCase_char :: "char \<Rightarrow> char" where
  "toLowerCase_char c =
     (let n = (of_char c :: nat) in
      if 65 \<le> n \<and> n \<le> 90
      then (case c of Char b0 b1 b2 b3 b4 b5 b6 b7 \<Rightarrow> Char b0 b1 b2 b3 b4 True b6 b7)
      else c)"

definition toLowerCase :: "string \<Rightarrow> string" where
  "toLowerCase s = map toLowerCase_char s"

text \<open>
  \<open>String.prototype.includes\<close>: \<open>includes_str s k\<close> is \<open>s.includes(k)\<close>, true when \<open>k\<close>
  occurs in \<open>s\<close> as a contiguous run of characters; the empty string occurs everywhere.
\<close>

fun includes_str :: "string \<Rightarrow> string \<Rightarrow> bool" where
  "includes_str [] k = (k = [])"
| "includes_str (c # cs) k = (prefix k (c # cs) \<or> includes_str cs k)"

section \<open>output.gs: scoring\<close>

record job =
  ID :: "string option"
  DateFound :: "string option"
  Title :: "string option"
  Company :: "string option"
  Location :: "string option"
  Link :: "string option"
  Source :: "string option"
  Snippet :: "string option"

record jobFilter =
  Keyword :: string
  Weight :: int
  Type :: string

text \<open>
  \<open>const allText = `${job.Title} ${job.Company} ${job.Location} ${job.Snippet}`.toLowerCase()\<close>
\<close>

definition allText :: "job \<Rightarrow> string" where
  "allText j =
     toLowerCase (interpolate (Title j) @ '' '' @ interpolate (Company j) @ '' '' @
                  interpolate (Location j) @ '' '' @ interpolate (Snippet j))"

text \<open>
  The body of the loop up to \<open>isMatch\<close>.  \<open>job.Title.toLowerCase()\<close> is evaluated only
  for a filter of type \<open>title\<close>, and raises a TypeError when the title is missing.  A
  filter of any other type than \<open>title\<close>, \<open>any\<close> and \<open>negative\<close> leaves \<open>isMatch\<close> false.
\<close>

definition isMatch :: "job \<Rightarrow> string \<Rightarrow> jobFilter \<Rightarrow> error + bool" where
  "isMatch j text f =
     (let keyword = toLowerCase (Keyword f) in
      if Type f = ''title'' then
        (case Title j of
           None \<Rightarrow> Inl (TypeError ''Cannot read properties of undefined (reading toLowerCase)'')
         | Some t \<Rightarrow> Inr (includes_str (toLowerCase t) keyword))
      else if Type f = ''any'' \<or> Type f = ''negative'' then Inr (includes_str text keyword)
      else Inr False)"

text \<open>The loop \<open>for (const filter of filters)\<close>, with its two accumulators.\<close>

fun scoreLoop :: "job \<Rightarrow> string \<Rightarrow> jobFilter list \<Rightarrow> int \<Rightarrow> string list \<Rightarrow>
    error + (int \<times> string list)" where
  "scoreLoop j text [] score matchedKeywords = Inr (score, matchedKeywords)"
| "scoreLoop j text (f # fs) score matchedKeywords =
     (case isMatch j text f of
        Inl e \<Rightarrow> Inl e
      | Inr m \<Rightarrow>
          if m then scoreLoop j text fs (score + Weight f) (matchedKeywords @ [Keyword f])
          else scoreLoop j text fs score matchedKeywords)"

text \<open>
  \<open>calculateScore(job, filters)\<close>.  An argument that is missing (\<open>!job || !filters\<close>)
  is \<open>None\<close>; an array, also the empty one, is truthy.
\<close>

definition calculateScore :: "job option \<Rightarrow> jobFilter list option \<Rightarrow>
    error + (int \<times> string list)" where
  "calculateScore job filters =
     (case (job, filters) of
        (Some j, Some fs) \<Rightarrow> scoreLoop j (allText j) fs 0 []
      | _ \<Rightarrow> Inl (Error ''Invalid job or filters''))"

section \<open>output.gs: the pipeline\<close>

text \<open>
  A processed job is a job with the four fields \<open>processJobs\<close> adds.  The same twelve
  fields, in this order, are the columns of a row of the Jobs tab.
\<close>

record processedJob = job +
  Score :: int
  MatchedKeywords :: string
  Status :: string
  DateNotified :: string

text \<open>
  The object \<open>getConfig\<close> returns.  \<open>coverLetterDocId\<close> is optional in the Config tab and
  keeps the cell's value; a numeric field that is \<open>0\<close> and a text field that is empty
  are falsy.
\<close>

datatype cell = CStr string | CNum int

fun falsy_cell :: "cell option \<Rightarrow> bool" where
  "falsy_cell None = True"
| "falsy_cell (Some (CStr s)) = (s = [])"
| "falsy_cell (Some (CNum n)) = (n = 0)"

record config =
  emailRecipient :: string
  minScore :: int
  topN :: int
  dedupeBy :: string
  dateFormat :: string
  coverLetterDocId :: "cell option"

text \<open>\<open>Array.prototype.join\<close>.\<close>

fun join :: "string \<Rightarrow> string list \<Rightarrow> string" where
  "join sep [] = []"
| "join sep [x] = x"
| "join sep (x # y # ys) = x @ sep @ join sep (y # ys)"

text \<open>
  \<open>generateUniqueID\<close> (utils.gs) reads and bumps the counter \<open>INFO_COUNTER\<close> kept in the
  Script Properties, outside the run, and builds the identifier from it.  The model takes
  the identifiers as a parameter, a function of a number that is threaded through the
  code.  In \<open>processJobs\<close>, \<open>gen n\<close> is the identifier given to the job number \<open>n\<close> (from 0)
  among the jobs that \<open>processJobs\<close> gives one; which identifiers these are depends on the
  counter when the run starts and on the log rows written in between, which draw on the
  same counter, so \<open>gen\<close> belongs to one run.  In the scraper the number is the counter
  itself, and the log rows are counted.
\<close>

type_synonym idgen = "nat \<Rightarrow> string"

text \<open>
  The loop of \<open>processJobs\<close> over \<open>rawJobs\<close>.  \<open>seenLinks\<close> is the \<open>Set\<close> of the links
  met so far, \<open>n\<close> the number of identifiers generated, \<open>processedJobs\<close> the output
  array.  \<open>job.ID || generateUniqueID()\<close> generates an identifier only for a job
  without one.
\<close>

fun processLoop :: "idgen \<Rightarrow> jobFilter list \<Rightarrow> config \<Rightarrow> job list \<Rightarrow> string option set \<Rightarrow> nat \<Rightarrow>
    processedJob list \<Rightarrow> error + processedJob list" where
  "processLoop gen filters cfg [] seenLinks n processedJobs = Inr processedJobs"
| "processLoop gen filters cfg (j # rawJobs) seenLinks n processedJobs =
     (if falsy (Title j) \<or> falsy (Link j) \<or> falsy (Source j)
      then processLoop gen filters cfg rawJobs seenLinks n processedJobs
      else if dedupeBy cfg = ''link'' \<and> Link j \<in> seenLinks
      then processLoop gen filters cfg rawJobs seenLinks n processedJobs
      else
        (case calculateScore (Some j) (Some filters) of
           Inl e \<Rightarrow> Inl e
         | Inr (score, matchedKeywords) \<Rightarrow>
             processLoop gen filters cfg rawJobs (insert (Link j) seenLinks)
               (if falsy (ID j) then Suc n else n)
               (processedJobs @
                [\<lparr>ID = Some (orElse (ID j) (gen n)),
                  DateFound = DateFound j,
                  Title = Title j,
                  Company = Some (orElse (Company j) []),
                  Location = Some (orElse (Location j) []),
                  Link = Link j,
                  Source = Source j,
                  Snippet = Some (interpolate (Title j) @ '' from '' @ interpolate (Source j)),
                  Score = score,
                  MatchedKeywords = join '', '' matchedKeywords,
                  Status = (if score \<ge> minScore cfg then ''New'' else ''Ignore''),
                  DateNotified = []\<rparr>])))"

text \<open>
  \<open>processJobs(rawJobs, filters, config)\<close>.  The arguments are typed here, so the first
  guard (\<open>!Array.isArray(rawJobs) || !Array.isArray(filters) || !config\<close>) cannot fire;
  the second is \<open>!config.minScore || !config.dedupeBy\<close>.
\<close>

definition processJobs :: "idgen \<Rightarrow> job list \<Rightarrow> jobFilter list \<Rightarrow> config \<Rightarrow> error + processedJob list" where
  "processJobs gen rawJobs filters cfg =
     (if minScore cfg = 0 \<or> dedupeBy cfg = []
      then Inl (Error ''Missing required config fields: minScore or dedupeBy'')
      else processLoop gen filters cfg rawJobs {} 0 [])"

section \<open>input.gs: the configuration\<close>

text \<open>
  \<open>Number(v)\<close> on a cell of the Config tab; \<open>None\<close> is \<open>NaN\<close>.  A numeric cell is its
  number.  What JavaScript reads from the text of a text cell is a parameter of the
  model: \<open>numberOfText s\<close> is \<open>Number(s)\<close>.
\<close>

fun Number :: "(string \<Rightarrow> int option) \<Rightarrow> cell \<Rightarrow> int option" where
  "Number numberOfText (CNum k) = Some k"
| "Number numberOfText (CStr s) = numberOfText s"

text \<open>
  The loop of \<open>getConfig\<close> over the rows below the header: a row with an empty key or
  an empty value is skipped, a later row overrides an earlier one.
\<close>

fun configRows :: "(string \<times> cell) list \<Rightarrow> (string \<rightharpoonup> cell) \<Rightarrow> (string \<rightharpoonup> cell)" where
  "configRows [] c = c"
| "configRows ((setting, v) # rows) c =
     (if setting = [] \<or> v = CStr [] then configRows rows c
      else configRows rows (c(setting \<mapsto> v)))"

text \<open>The first required field that is missing, in the order of \<open>requiredFields\<close>.\<close>

fun missingField :: "(string \<rightharpoonup> cell) \<Rightarrow> string list \<Rightarrow> string option" where
  "missingField c [] = None"
| "missingField c (f # fs) = (if c f = None then Some f else missingField c fs)"

text \<open>
  \<open>getConfig()\<close> on the cells of the Config tab (\<open>None\<close>: there is no such tab), a
  key and a value in each row, the header row first.  \<open>config.emailRecipient.includes\<close>
  raises a TypeError on a numeric cell.
\<close>

definition getConfig :: "(string \<Rightarrow> int option) \<Rightarrow> string option \<Rightarrow>
    (string \<times> cell) list option \<Rightarrow> error + config" where
  "getConfig numberOfText sheetId configSheet =
     (if falsy sheetId then Inl (Error ''SHEET_ID not set in Script Properties'')
      else case configSheet of
        None \<Rightarrow> Inl (Error ''Config tab not found'')
      | Some data \<Rightarrow>
          if length data < 2 then Inl (Error ''Config tab is empty or missing headers'')
          else if hd data \<noteq> (''Key'', CStr ''Value'') then Inl (Error ''Config tab headers incorrect'')
          else
            (let c = configRows (tl data) Map.empty in
             case missingField c [''emailRecipient'', ''minScore'', ''topN'', ''dedupeBy'', ''dateFormat''] of
               Some f \<Rightarrow> Inl (Error (''Missing required config field: '' @ f))
             | None \<Rightarrow>
                 (case (Number numberOfText (the (c ''minScore'')),
                       Number numberOfText (the (c ''topN''))) of
                    (Some ms, Some tn) \<Rightarrow>
                      (case the (c ''emailRecipient'') of
                         CNum k \<Rightarrow> Inl (TypeError ''config.emailRecipient.includes is not a function'')
                       | CStr recipient \<Rightarrow>
                           if \<not> includes_str recipient ''@'' then Inl (Error ''Invalid emailRecipient'')
                           else if c ''dedupeBy'' \<noteq> Some (CStr ''link'')
                           then Inl (Error (''dedupeBy must be '' @ [CHR 0x22] @ ''link'' @ [CHR 0x22]))
                           else if c ''dateFormat'' \<noteq> Some (CStr ''yyyy-MM-dd'')
                           then Inl (Error ''Invalid dateFormat'')
                           else Inr \<lparr>emailRecipient = recipient, minScore = ms, topN = tn,
                                     dedupeBy = ''link'', dateFormat = ''yyyy-MM-dd'',
                                     coverLetterDocId = c ''coverLetterDocId''\<rparr>)
                  | _ \<Rightarrow> Inl (Error ''minScore and topN must be numeric''))))"

section \<open>The spreadsheet\<close>

text \<open>
  What the modules read and write outside themselves: the Script Property
  \<open>SHEET_ID\<close> and the Jobs tab of the spreadsheet, as the list of its data rows below
  the header (\<open>None\<close>: there is no Jobs tab).  \<open>getLastRow() <= 1\<close> is the empty list.  A
  cell gives back the value that was written to it, and reading and writing the sheet
  do not fail.
\<close>

record store =
  SHEET_ID :: "string option"
  Jobs :: "processedJob list option"

section \<open>email.js: the digest\<close>

text \<open>
  \<open>Array.prototype.sort(compare)\<close> is stable (ECMAScript 2019, the V8 runtime of Apps
  Script): an element is moved behind another one only when \<open>compare\<close> says so with a
  positive number.  It is modelled by insertion from the right.
\<close>

fun insertSorted :: "('a \<Rightarrow> 'a \<Rightarrow> int) \<Rightarrow> 'a \<Rightarrow> 'a list \<Rightarrow> 'a list" where
  "insertSorted compare x [] = [x]"
| "insertSorted compare x (y # ys) =
     (if compare x y \<le> 0 then x # y # ys else y # insertSorted compare x ys)"

fun sortBy :: "('a \<Rightarrow> 'a \<Rightarrow> int) \<Rightarrow> 'a list \<Rightarrow> 'a list" where
  "sortBy compare [] = []"
| "sortBy compare (x # xs) = insertSorted compare x (sortBy compare xs)"

text \<open>
  \<open>xs.slice(0, n)\<close>: a negative \<open>n\<close> counts from the end of the array.
\<close>

definition slice0 :: "int \<Rightarrow> 'a list \<Rightarrow> 'a list" where
  "slice0 n xs = (if n < 0 then take (nat (int (length xs) + n)) xs else take (nat n) xs)"

text \<open>
  The selection of \<open>sendJobDigest\<close>:
  \<open>jobs.filter(job => job.Status === 'New' && job.Score >= config.minScore && !job.DateNotified)
       .sort((a, b) => b.Score - a.Score).slice(0, config.topN)\<close>
\<close>

definition eligibleJobs :: "config \<Rightarrow> processedJob list \<Rightarrow> processedJob list" where
  "eligibleJobs cfg jobs =
     slice0 (topN cfg)
       (sortBy (\<lambda>a b. Score b - Score a)
          (filter (\<lambda>job. Status job = ''New'' \<and> Score job \<ge> minScore cfg \<and> DateNotified job = [])
             jobs))"

text \<open>
  \<open>updateNotifiedJobs\<close>: every row whose ID is the ID of an emailed job gets the status
  \<open>Notified\<close> and the date of today; the result is the rows and the number of rows
  updated.
\<close>

definition updateNotifiedJobs :: "processedJob list \<Rightarrow> processedJob list \<Rightarrow> string \<Rightarrow>
    processedJob list \<times> nat" where
  "updateNotifiedJobs rows emailedJobs today =
     (map (\<lambda>r. if ID r \<in> set (map ID emailedJobs)
               then r\<lparr>Status := ''Notified'', DateNotified := today\<rparr> else r) rows,
      length (filter (\<lambda>r. ID r \<in> set (map ID emailedJobs)) rows))"

text \<open>
  What the mail services do in one call of \<open>sendJobDigest\<close>: loading and evaluating
  the template and \<open>GmailApp.sendEmail\<close> either succeed (\<open>None\<close>) or throw an error with
  a message.  Reading the cover letter is wrapped in a \<open>try\<close> of its own and changes
  the text of the mail only; \<open>buildHtmlTable\<close> builds text and throws on an empty list
  only, which it is not given.  \<open>today\<close> is \<open>formatDate(new Date(), config.dateFormat)\<close>.
\<close>

record mailer =
  templateFailure :: "string option"
  sendFailure :: "string option"
  today :: string

text \<open>
  \<open>sendJobDigest(config)\<close>: the store after the call, and the error thrown or the
  number of jobs emailed.
\<close>

definition sendJobDigest :: "config \<Rightarrow> mailer \<Rightarrow> store \<Rightarrow> store \<times> (error + nat)" where
  "sendJobDigest cfg mail st =
     (if emailRecipient cfg = [] \<or> topN cfg = 0 \<or> falsy_cell (coverLetterDocId cfg)
      then (st, Inl (Error ''Missing required config: emailRecipient, topN, or coverLetterDocId''))
      else if falsy (SHEET_ID st) then (st, Inl (Error ''SHEET_ID not set in Script Properties''))
      else case Jobs st of
        None \<Rightarrow> (st, Inl (Error ''Jobs tab not found''))
      | Some rows \<Rightarrow>
          if rows = [] then (st, Inr 0)
          else
            (let selected = eligibleJobs cfg rows in
             if selected = [] then (st, Inr 0)
             else case templateFailure mail of
               Some m \<Rightarrow> (st, Inl (Error m))
             | None \<Rightarrow>
                 (case sendFailure mail of
                    Some m \<Rightarrow> (st, Inl (Error m))
                  | None \<Rightarrow>
                      (st\<lparr>Jobs := Some (fst (updateNotifiedJobs rows selected (today mail)))\<rparr>,
                       Inr (length selected)))))"

section \<open>appending.gs\<close>

text \<open>
  \<open>getExistingLinks\<close>: the links of the Jobs tab that pass
  \<open>link && typeof link === 'string' && link.includes('http')\<close>.
\<close>

fun isHttpLink :: "string option \<Rightarrow> bool" where
  "isHttpLink None = False"
| "isHttpLink (Some s) = (s \<noteq> [] \<and> includes_str s ''http'')"

definition getExistingLinks :: "processedJob list \<Rightarrow> string option set" where
  "getExistingLinks rows = set (filter isHttpLink (map Link rows))"

text \<open>
  The check of the required fields in \<open>appendJobs\<close>.  \<open>Score\<close> and \<open>DateNotified\<close> are
  typed here and never \<open>undefined\<close>.
\<close>

definition missingFields :: "processedJob \<Rightarrow> bool" where
  "missingFields job =
     (falsy (ID job) \<or> falsy (DateFound job) \<or> falsy (Title job) \<or> falsy (Link job) \<or>
      falsy (Source job) \<or> falsy (Snippet job) \<or> MatchedKeywords job = [] \<or> Status job = [])"

text \<open>
  The loop of \<open>appendJobs\<close>.  It returns the rows to append and the batch as the loop
  leaves it: a job with an unknown status is changed in place
  (\<open>job.Status = 'Ignore'\<close>).
\<close>

fun appendLoop :: "string option set \<Rightarrow> processedJob list \<Rightarrow> string option set \<Rightarrow>
    processedJob list \<Rightarrow> processedJob list \<times> processedJob list" where
  "appendLoop existingLinks [] seenLinksInBatch jobsToAppend = (jobsToAppend, [])"
| "appendLoop existingLinks (job # processedJobs) seenLinksInBatch jobsToAppend =
     (if missingFields job then
        (let (rows, batch) = appendLoop existingLinks processedJobs seenLinksInBatch jobsToAppend
         in (rows, job # batch))
      else if Link job \<in> existingLinks \<or> Link job \<in> seenLinksInBatch then
        (let (rows, batch) = appendLoop existingLinks processedJobs seenLinksInBatch jobsToAppend
         in (rows, job # batch))
      else
        (let job' = (if Status job \<in> set [''New'', ''Ignore'', ''Applied'', ''Interviewing'', ''Rejected'']
                     then job else job\<lparr>Status := ''Ignore''\<rparr>);
             (rows, batch) = appendLoop existingLinks processedJobs
                               (insert (Link job) seenLinksInBatch) (jobsToAppend @ [job'])
         in (rows, job' # batch)))"

text \<open>
  \<open>appendJobs(processedJobs, config)\<close>: the batch and the store after the call, and
  the error thrown or the number of rows appended.
\<close>

definition appendJobs :: "processedJob list \<Rightarrow> config \<Rightarrow> store \<Rightarrow>
    processedJob list \<times> store \<times> (error + nat)" where
  "appendJobs processedJobs cfg st =
     (if dedupeBy cfg = [] \<or> minScore cfg = 0
      then (processedJobs, st, Inl (Error ''Missing required config fields: dedupeBy or minScore''))
      else if dedupeBy cfg \<noteq> ''link''
      then (processedJobs, st, Inl (Error (''dedupeBy must be '' @ [CHR 0x22] @ ''link'' @ [CHR 0x22])))
      else if falsy (SHEET_ID st)
      then (processedJobs, st, Inl (Error ''SHEET_ID not set in Script Properties''))
      else case Jobs st of
        None \<Rightarrow> (processedJobs, st, Inl (Error ''Jobs tab not found''))
      | Some rows \<Rightarrow>
          (let (jobsToAppend, batch) = appendLoop (getExistingLinks rows) processedJobs {} []
           in (batch, st\<lparr>Jobs := Some (rows @ jobsToAppend)\<rparr>, Inr (length jobsToAppend))))"

section \<open>scraper.gs\<close>

record source =
  SourceName :: string
  URL :: string
  Notes :: string

text \<open>
  An \<open>item\<close> element of a feed, with the text of the children the scraper reads
  (\<open>getChildText\<close> gives \<open>null\<close> for a child that is not there, here \<open>None\<close>).
\<close>

record item =
  title_text :: "string option"
  link_text :: "string option"
  pubDate_text :: "string option"
  description_text :: "string option"
  company_text :: "string option"
  location_text :: "string option"

text \<open>
  What \<open>UrlFetchApp.fetch\<close> and \<open>XmlService.parse\<close> give for a URL: the fetch throws, or
  there is a response with its code and text, whose parsing throws or gives a document
  with the items of its channel (\<open>None\<close>: the root has no \<open>channel\<close> child).
\<close>

datatype xml = ParseThrows string | Document "item list option"

datatype fetched = FetchThrows string | Response int string xml

text \<open>
  \<open>fetchSingleRSS\<close> up to its loop: either the error it throws or the items of the
  channel, at most 50.  (The messages leave out the response code and text.)
\<close>

definition fetchItems :: "(string \<Rightarrow> fetched) \<Rightarrow> string \<Rightarrow> string \<Rightarrow> string \<Rightarrow> error + item list" where
  "fetchItems web url sourceName day =
     (if url = [] \<or> sourceName = [] \<or> day = []
      then Inl (Error (''Invalid parameters: url='' @ url @ '', sourceName='' @ sourceName @
                       '', today='' @ day))
      else case web url of
        FetchThrows m \<Rightarrow> Inl (Error (''HTTP fetch failed: '' @ m))
      | Response code content parsed \<Rightarrow>
          if code \<noteq> 200 then Inl (Error ''HTTP error'')
          else
            (case parsed of
               ParseThrows m \<Rightarrow> Inl (Error (''XML parsing failed: '' @ m))
             | Document None \<Rightarrow> Inl (Error ''No channel found in RSS feed'')
             | Document (Some items) \<Rightarrow> Inr (take 50 items)))"

text \<open>
  The identifiers of the scraped jobs come from \<open>generateUniqueID('INFO')\<close>: \<open>idOf n\<close> is the
  identifier it builds when \<open>INFO_COUNTER\<close> holds \<open>n\<close>, and it leaves \<open>n + 1\<close> in the
  counter.  \<open>logMessage('INFO', ...)\<close> draws the identifier of its log row from the same
  counter when it gets as far as writing to the Logs tab (\<open>logs\<close>), and does not touch it
  otherwise; the rows of type \<open>WARN\<close> and \<open>ERROR\<close> have counters of their own.
\<close>

definition logged :: "bool \<Rightarrow> nat \<Rightarrow> nat" where
  "logged logs n = (if logs then Suc n else n)"

text \<open>
  The loop of \<open>fetchSingleRSS\<close> over the items; an item without a link is skipped, with a
  row of type \<open>WARN\<close>.
\<close>

fun itemLoop :: "(nat \<Rightarrow> string) \<Rightarrow> string \<Rightarrow> string \<Rightarrow> item list \<Rightarrow> nat \<Rightarrow> job list \<Rightarrow> job list \<times> nat" where
  "itemLoop idOf sourceName day [] n jobs = (jobs, n)"
| "itemLoop idOf sourceName day (i # items) n jobs =
     (if orElse (link_text i) [] = [] then itemLoop idOf sourceName day items n jobs
      else itemLoop idOf sourceName day items (Suc n)
             (jobs @
              [\<lparr>ID = Some (idOf n),
                DateFound = Some day,
                Title = Some (orElse (title_text i) ''Unknown Title''),
                Company = Some (orElse (company_text i) []),
                Location = Some (orElse (location_text i) []),
                Link = Some (orElse (link_text i) []),
                Source = Some sourceName,
                Snippet = Some (take 500 (orElse (description_text i) []))\<rparr>]))"

text \<open>
  \<open>fetchSingleRSS(url, sourceName, today)\<close>, from the counter \<open>n\<close>: the error thrown, or
  the jobs and the counter after the row \<open>Parse Completed\<close>.  It throws before its loop
  or not at all.
\<close>

definition fetchSingleRSS :: "(string \<Rightarrow> fetched) \<Rightarrow> (nat \<Rightarrow> string) \<Rightarrow> bool \<Rightarrow> string \<Rightarrow> string \<Rightarrow>
    string \<Rightarrow> nat \<Rightarrow> error + (job list \<times> nat)" where
  "fetchSingleRSS web idOf logs url sourceName day n =
     (case fetchItems web url sourceName day of
        Inl e \<Rightarrow> Inl e
      | Inr items \<Rightarrow>
          (let (jobs, n') = itemLoop idOf sourceName day items n [] in Inr (jobs, logged logs n')))"

text \<open>
  The loop of \<open>scrapeJobs\<close> over the sources.  An invalid source is skipped with a row
  of type \<open>WARN\<close>.  For a valid one the row \<open>Fetch Started\<close> is written, then
  \<open>fetchSingleRSS\<close> runs; its jobs are added and the row \<open>Fetch Completed\<close> is written,
  or the \<open>catch\<close> writes a row of type \<open>ERROR\<close> and goes on with the next source.
\<close>

fun scrapeLoop :: "(string \<Rightarrow> fetched) \<Rightarrow> (nat \<Rightarrow> string) \<Rightarrow> bool \<Rightarrow> string \<Rightarrow> source list \<Rightarrow> nat \<Rightarrow>
    job list \<Rightarrow> job list \<times> nat" where
  "scrapeLoop web idOf logs day [] n jobs = (jobs, n)"
| "scrapeLoop web idOf logs day (s # sources) n jobs =
     (if SourceName s = [] \<or> URL s = [] then scrapeLoop web idOf logs day sources n jobs
      else case fetchSingleRSS web idOf logs (URL s) (SourceName s) day (logged logs n) of
        Inr (sourceJobs, n') \<Rightarrow>
          scrapeLoop web idOf logs day sources (logged logs n') (jobs @ sourceJobs)
      | Inl e \<Rightarrow> scrapeLoop web idOf logs day sources (logged logs n) jobs)"

text \<open>
  \<open>scrapeJobs(sources)\<close>, from the counter \<open>n\<close>; \<open>day\<close> is
  \<open>formatDate(new Date(), 'yyyy-MM-dd')\<close>.  The row \<open>Scrape Started\<close> is written before the
  sources are looked at, the row \<open>Scrape Completed\<close> after the loop.  The result is the
  jobs and the counter at the end.
\<close>

definition scrapeJobs :: "(string \<Rightarrow> fetched) \<Rightarrow> (nat \<Rightarrow> string) \<Rightarrow> bool \<Rightarrow> string \<Rightarrow> source list \<Rightarrow>
    nat \<Rightarrow> error + (job list \<times> nat)" where
  "scrapeJobs web idOf logs day sources n =
     (if sources = [] then Inl (Error ''No valid sources provided'')
      else (let (jobs, n') = scrapeLoop web idOf logs day sources (logged logs n) []
            in Inr (jobs, logged logs n')))"

section \<open>The scraper in the words of the specification\<close>

text \<open>A job without its identifier.\<close>

definition withoutID :: "job \<Rightarrow> job" where
  "withoutID j = j\<lparr>ID := None\<rparr>"

text \<open>
  The jobs fetched from a source: those that \<open>fetchSingleRSS\<close> returns for it, their
  identifiers aside, and none when it throws.
\<close>

definition fetchedFrom :: "(string \<Rightarrow> fetched) \<Rightarrow> (nat \<Rightarrow> string) \<Rightarrow> bool \<Rightarrow> string \<Rightarrow> source \<Rightarrow>
    job list" where
  "fetchedFrom web idOf logs day s =
     (case fetchSingleRSS web idOf logs (URL s) (SourceName s) day 0 of
        Inl e \<Rightarrow> []
      | Inr (jobs, n) \<Rightarrow> map withoutID jobs)"

section \<open>The scorer in the words of the specification\<close>

text \<open>
  The text of a field of a listing: an optional field that is absent has no text.
\<close>

definition fieldText :: "string option \<Rightarrow> string" where
  "fieldText v = (case v of None \<Rightarrow> [] | Some s \<Rightarrow> s)"

text \<open>
  The matching condition of a rule: the lower-cased keyword occurs in the lower-cased
  title (scope \<open>title\<close>), or in the lower-cased concatenation of title, organization,
  location and snippet with a blank as separator (scopes \<open>any\<close> and \<open>negative\<close>).
\<close>

definition rule_matches :: "job \<Rightarrow> jobFilter \<Rightarrow> bool" where
  "rule_matches j f =
     (if Type f = ''title''
      then sublist (toLowerCase (Keyword f)) (toLowerCase (fieldText (Title j)))
      else if Type f = ''any'' \<or> Type f = ''negative''
      then sublist (toLowerCase (Keyword f))
             (toLowerCase (fieldText (Title j) @ '' '' @ fieldText (Company j) @ '' '' @
                           fieldText (Location j) @ '' '' @ fieldText (Snippet j)))
      else False)"

text \<open>
  The score is the sum of the weights of the rules that match, the matched keywords are
  their keywords, in the order of the rules and as they are written.
\<close>

definition score_spec :: "job \<Rightarrow> jobFilter list \<Rightarrow> int \<times> string list" where
  "score_spec j fs =
     (sum_list (map Weight (filter (rule_matches j) fs)),
      map Keyword (filter (rule_matches j) fs))"

section \<open>The pipeline in the words of the specification\<close>

text \<open>Step 1 of the pipeline: a listing is valid when it has a title, a link and a source.\<close>

definition validJob :: "job \<Rightarrow> bool" where
  "validJob j = (\<not> falsy (Title j) \<and> \<not> falsy (Link j) \<and> \<not> falsy (Source j))"

text \<open>
  Step 2: of the listings that share a link, the first one is kept and every later one
  is dropped.
\<close>

fun firstPerLink :: "job list \<Rightarrow> job list" where
  "firstPerLink [] = []"
| "firstPerLink (j # js) = j # filter (\<lambda>k. Link k \<noteq> Link j) (firstPerLink js)"




section \<open>The test data of output.gs\<close>

text \<open>
  \<open>mockConfig\<close>, \<open>mockFilters\<close> and \<open>mockJobs\<close> of \<open>testOutput\<close>, with identifiers and a
  date filled in for the calls of \<open>generateUniqueID\<close> and \<open>formatDate\<close>, and the two
  processed jobs the test expects.  The recipient and \<open>topN\<close>, which \<open>testOutput\<close> leaves
  out, are those of \<open>testEmail\<close>.
\<close>

definition mockConfig :: config where
  "mockConfig = \<lparr>emailRecipient = ''test@example.com'', minScore = 1, topN = 5,
                  dedupeBy = ''link'', dateFormat = ''yyyy-MM-dd'', coverLetterDocId = None\<rparr>"

definition mockFilters :: "jobFilter list" where
  "mockFilters =
     [\<lparr>Keyword = ''Power Systems'', Weight = 10, Type = ''title''\<rparr>,
      \<lparr>Keyword = ''Germany'', Weight = 4, Type = ''any''\<rparr>,
      \<lparr>Keyword = ''Intern'', Weight = - 10, Type = ''negative''\<rparr>]"

definition mockJobs :: "job list" where
  "mockJobs =
     [\<lparr>ID = Some ''INFO-001'', DateFound = Some ''2025-09-13'',
       Title = Some ''Senior Power Systems Engineer'', Company = Some ''Energy Grid Co'',
       Location = Some ''Berlin, Germany'', Link = Some ''https://example.com/job1'',
       Source = Some ''TestSource'',
       Snippet = Some ''Senior Power Systems Engineer from TestSource''\<rparr>,
      \<lparr>ID = Some ''INFO-002'', DateFound = Some ''2025-09-13'',
       Title = Some ''Intern Developer'', Company = Some ''Startup Inc'',
       Location = Some ''Munich'', Link = Some ''https://example.com/job2'',
       Source = Some ''TestSource'', Snippet = Some ''Intern Developer from TestSource''\<rparr>,
      \<lparr>ID = Some ''INFO-003'', DateFound = Some ''2025-09-13'',
       Title = Some ''Power Systems Duplicate'', Company = Some ''Energy Grid Co'',
       Location = Some ''Berlin, Germany'', Link = Some ''https://example.com/job1'',
       Source = Some ''TestSource'', Snippet = Some ''Power Systems Duplicate from TestSource''\<rparr>]"


section \<open>The digest in the words of the specification\<close>

text \<open>
  A candidate of the digest: a listing that is accepted, whose score reaches the
  minimum score and whose notification date is not set.
\<close>

definition eligible :: "config \<Rightarrow> processedJob \<Rightarrow> bool" where
  "eligible cfg job = (Status job = ''New'' \<and> minScore cfg \<le> Score job \<and> DateNotified job = [])"

section \<open>The test data of email.js, appending.gs and scraper.gs\<close>

text \<open>
  A row of the Jobs tab as \<open>testEmail\<close> and \<open>testAppending\<close> build their mock jobs, with
  the identifier, the score, the status and the notification date left open.
\<close>

definition row :: "string \<Rightarrow> int \<Rightarrow> string \<Rightarrow> string \<Rightarrow> processedJob" where
  "row i score status notified =
     \<lparr>ID = Some i, DateFound = Some ''2025-09-13'', Title = Some (''Test Job '' @ i),
      Company = Some ''Test Corp'', Location = Some ''Remote'',
      Link = Some (''https://example.com/job'' @ i), Source = Some ''TestSource'',
      Snippet = Some (''Test Job '' @ i @ '' from TestSource''), Score = score,
      MatchedKeywords = ''CIO'', Status = status, DateNotified = notified\<rparr>"

text \<open>
  A Jobs tab of seven rows for the digest: four candidates tie in pairs, one row is
  notified already and one is rejected.  \<open>notifiedRows\<close> is the tab after the three best
  candidates are marked.
\<close>

definition digestConfig :: config where
  "digestConfig = \<lparr>emailRecipient = ''test@example.com'', minScore = 1, topN = 3,
                    dedupeBy = ''link'', dateFormat = ''yyyy-MM-dd'',
                    coverLetterDocId = Some (CStr ''mockDocId123'')\<rparr>"

definition digestRows :: "processedJob list" where
  "digestRows = [row ''1'' 5 ''New'' [], row ''2'' 10 ''New'' [], row ''3'' 10 ''New'' ''2025-09-01'',
                 row ''4'' 5 ''New'' [], row ''5'' 10 ''New'' [], row ''6'' 0 ''Ignore'' [],
                 row ''7'' 7 ''New'' []]"





text \<open>
  A batch for \<open>appendJobs\<close> in the way of \<open>testAppending\<close>: the third job repeats the link
  of the first, the fourth has a status that \<open>appendJobs\<close> does not know.  \<open>ftpJob\<close> is a
  complete job whose link does not contain \<open>http\<close>.
\<close>

definition appendBatch :: "processedJob list" where
  "appendBatch = [row ''1'' 10 ''New'' [], row ''2'' (- 5) ''Ignore'' [],
                  (row ''1'' 10 ''New'' [])\<lparr>Title := Some ''Duplicate Job''\<rparr>,
                  row ''4'' 3 ''Pending'' []]"

definition appendedBatch :: "processedJob list" where
  "appendedBatch = [row ''1'' 10 ''New'' [], row ''2'' (- 5) ''Ignore'' [],
                  (row ''1'' 10 ''New'' [])\<lparr>Title := Some ''Duplicate Job''\<rparr>,
                  row ''4'' 3 ''Ignore'' []]"

definition emptyStore :: store where
  "emptyStore = \<lparr>SHEET_ID = Some ''sheet-1'', Jobs = Some []\<rparr>"

definition appendedStore :: store where
  "appendedStore = \<lparr>SHEET_ID = Some ''sheet-1'',
                     Jobs = Some [row ''1'' 10 ''New'' [], row ''2'' (- 5) ''Ignore'' [],
                                  row ''4'' 3 ''Ignore'' []]\<rparr>"

definition ftpJob :: processedJob where
  "ftpJob = (row ''9'' 10 ''New'' [])\<lparr>Link := Some ''ftp://jobs.example.org/9''\<rparr>"

text \<open>
  \<open>mockFetch\<close> and the first two of the \<open>mockSources\<close> of \<open>testScraper\<close>, and the
  identifiers that \<open>generateUniqueID\<close> builds from the counter values 2 and 7.
\<close>

definition mockFetch :: "string \<Rightarrow> fetched" where
  "mockFetch url =
     (if url = ''https://example.com/feed'' then
        Response 200 ''<rss version=2.0>''
          (Document (Some [\<lparr>title_text = Some ''Test Job'',
                             link_text = Some ''https://example.com/job1'',
                             pubDate_text = Some ''2025-09-13'',
                             description_text = Some ''Test job description'',
                             company_text = None, location_text = None\<rparr>]))
      else if url = ''https://example.com/invalid-feed''
      then FetchThrows ''XML parsing failed: Invalid XML structure''
      else if url = ''https://example.com/slow-feed''
      then FetchThrows ''HTTP fetch failed: Request timed out''
      else FetchThrows ''Unknown URL'')"

definition mockID :: "nat \<Rightarrow> string" where
  "mockID n = (if n = 2 then ''INFO-003'' else if n = 7 then ''INFO-008'' else ''INFO-000'')"

definition mockRSS :: source where
  "mockRSS = \<lparr>SourceName = ''Mock RSS'', URL = ''https://example.com/feed'',
               Notes = ''Mock feed for testing''\<rparr>"

definition invalidRSS :: source where
  "invalidRSS = \<lparr>SourceName = ''Invalid RSS'', URL = ''https://example.com/invalid-feed'',
                  Notes = ''Simulates invalid feed''\<rparr>"

section \<open>Properties of the scorer\<close>

lemma includes_str_sublist: "includes_str s k = sublist k s"
  by (induction s) (auto simp: sublist_Cons_right)

lemma toLowerCase_append: "toLowerCase (a @ b) = toLowerCase a @ toLowerCase b"
  by (simp add: toLowerCase_def)

lemma toLowerCase_undefined: "toLowerCase ''undefined'' = ''undefined''"
  by (simp add: toLowerCase_def toLowerCase_char_def)

lemma isMatch_present:
  assumes "Title j = Some t" "Company j = Some c" "Location j = Some l" "Snippet j = Some s"
  shows "isMatch j (allText j) f = Inr (rule_matches j f)"
  using assms
  by (simp add: isMatch_def rule_matches_def allText_def fieldText_def includes_str_sublist)

text \<open>
  The loop adds up the weights of the filters that match and collects their keywords,
  whatever the accumulators hold when it starts.
\<close>

lemma scoreLoop_sum:
  assumes "\<And>f. f \<in> set fs \<Longrightarrow> isMatch j text f = Inr (P f)"
  shows "scoreLoop j text fs score mk =
           Inr (score + sum_list (map Weight (filter P fs)), mk @ map Keyword (filter P fs))"
  using assms by (induction fs arbitrary: score mk) auto

text \<open>
  On a listing whose four text fields are all there, \<open>calculateScore\<close> computes the
  score of the specification.
\<close>

lemma calculateScore_score_spec:
  assumes "Title j = Some t" "Company j = Some c" "Location j = Some l" "Snippet j = Some s"
  shows "calculateScore (Some j) (Some fs) = Inr (score_spec j fs)"
  unfolding calculateScore_def score_spec_def
  using scoreLoop_sum [of fs j "allText j" "rule_matches j" 0 "[]"] isMatch_present [OF assms]
  by simp

text \<open>The only error the loop can end in is the TypeError of a missing title.\<close>

lemma isMatch_error: "isMatch j text f = Inl e \<Longrightarrow> \<exists>m. e = TypeError m"
  by (auto simp: isMatch_def Let_def split: if_splits option.splits)

lemma scoreLoop_error: "scoreLoop j text fs score mk = Inl e \<Longrightarrow> \<exists>m. e = TypeError m"
  by (induction fs arbitrary: score mk) (auto split: sum.splits if_splits dest: isMatch_error)

text \<open>
  The loop ends in that TypeError exactly when the title is missing and a filter of type
  \<open>title\<close> is met.
\<close>

lemma isMatch_fails_iff:
  "(\<exists>e. isMatch j text f = Inl e) \<longleftrightarrow> Title j = None \<and> Type f = ''title''"
  by (auto simp: isMatch_def Let_def split: option.splits)

lemma scoreLoop_fails_iff:
  "(\<exists>e. scoreLoop j text fs score mk = Inl e) \<longleftrightarrow> Title j = None \<and> (\<exists>f\<in>set fs. Type f = ''title'')"
proof (induction fs arbitrary: score mk)
  case Nil
  then show ?case by simp
next
  case (Cons f fs)
  show ?case
  proof (cases "isMatch j text f")
    case (Inl e)
    then have "Title j = None \<and> Type f = ''title''"
      using isMatch_fails_iff [of j "text" f] by blast
    with Inl show ?thesis by auto
  next
    case (Inr m)
    then have "\<not> (Title j = None \<and> Type f = ''title'')"
      using isMatch_fails_iff [of j "text" f] by auto
    with Inr Cons [of "score + Weight f" "mk @ [Keyword f]"] Cons [of score mk] show ?thesis
      by (cases m) auto
  qed
qed

lemma calculateScore_TypeError:
  "(\<exists>m. calculateScore (Some j) (Some fs) = Inl (TypeError m))
     \<longleftrightarrow> Title j = None \<and> (\<exists>f\<in>set fs. Type f = ''title'')"
proof -
  have "(\<exists>m. scoreLoop j (allText j) fs 0 [] = Inl (TypeError m))
          \<longleftrightarrow> (\<exists>e. scoreLoop j (allText j) fs 0 [] = Inl e)"
    using scoreLoop_error by blast
  then show ?thesis
    by (simp add: calculateScore_def scoreLoop_fails_iff)
qed

text \<open>
  C1.  The scorer returns the sum of the weights of exactly the rules whose
  lower-cased keyword occurs in the lower-cased title (title rules) or in the
  lower-cased concatenation of title, organization, location and snippet (any-field and
  negative rules), with the matched keywords in rule order and original casing.  The
  example of the specification holds: the title \<open>POWER\<close> and the title rule \<open>power\<close> of
  weight 5 give the score 5.  On a listing whose optional fields are absent the code
  departs from it: the corpus of \<open>calculateScore\<close> holds the text \<open>undefined\<close> for each
  absent field, so the any-field rule \<open>fine\<close> of weight 3 matches the listing that
  has the title \<open>Engineer\<close> and nothing else and scores 3, where no field of the listing
  contains the keyword and the score of the specification is 0.
\<close>

theorem calculateScore_absent_fields_diverge:
  "calculateScore
     (Some \<lparr>ID = None, DateFound = None, Title = Some ''POWER'', Company = None,
            Location = None, Link = None, Source = None, Snippet = None\<rparr>)
     (Some [\<lparr>Keyword = ''power'', Weight = 5, Type = ''title''\<rparr>]) = Inr (5, [''power''])
   \<and> calculateScore
     (Some \<lparr>ID = None, DateFound = None, Title = Some ''Engineer'', Company = None,
            Location = None, Link = None, Source = None, Snippet = None\<rparr>)
     (Some [\<lparr>Keyword = ''fine'', Weight = 3, Type = ''any''\<rparr>]) = Inr (3, [''fine''])
   \<and> score_spec
     \<lparr>ID = None, DateFound = None, Title = Some ''Engineer'', Company = None,
       Location = None, Link = None, Source = None, Snippet = None\<rparr>
     [\<lparr>Keyword = ''fine'', Weight = 3, Type = ''any''\<rparr>] = (0, [])"
  by (simp add: calculateScore_def allText_def isMatch_def score_spec_def rule_matches_def
      fieldText_def toLowerCase_def toLowerCase_char_def includes_str_sublist [symmetric])

text \<open>
  C8, as amended.  The scorer fails with the error \<open>Invalid job or filters\<close> exactly when
  the listing or the rule set is absent; on a listing that is there and the empty rule
  set it returns the score 0 and no matched keyword.
\<close>

theorem calculateScore_invalid_input:
  "(calculateScore job filters = Inl (Error ''Invalid job or filters'')
      \<longleftrightarrow> job = None \<or> filters = None)
   \<and> calculateScore (Some j) (Some []) = Inr (0, [])"
proof -
  have "calculateScore (Some j') (Some fs) \<noteq> Inl (Error ''Invalid job or filters'')" for j' fs
    using scoreLoop_error [of j' "allText j'" fs 0 "[]"] by (auto simp: calculateScore_def)
  moreover have "calculateScore None fs = Inl (Error ''Invalid job or filters'')" for fs
    by (simp add: calculateScore_def)
  moreover have "calculateScore j' None = Inl (Error ''Invalid job or filters'')" for j'
    by (cases j') (simp_all add: calculateScore_def)
  moreover have "calculateScore (Some j) (Some []) = Inr (0, [])"
    by (simp add: calculateScore_def)
  ultimately show ?thesis
    by (cases job; cases filters) auto
qed

text \<open>
  C8, as stated, fails on a listing that is there but malformed: the guard of
  \<open>calculateScore\<close> looks at the arguments, not at their fields.  A listing without
  title, link and source is scored by an any-field rule, and a title rule ends in the
  TypeError of the missing title, not in \<open>Invalid job or filters\<close>.
\<close>

theorem calculateScore_malformed_listing:
  "\<not> validJob \<lparr>ID = None, DateFound = None, Title = None, Company = Some ''Acme Corp'',
                 Location = None, Link = None, Source = None, Snippet = None\<rparr>
   \<and> calculateScore
       (Some \<lparr>ID = None, DateFound = None, Title = None, Company = Some ''Acme Corp'',
              Location = None, Link = None, Source = None, Snippet = None\<rparr>)
       (Some [\<lparr>Keyword = ''acme'', Weight = 7, Type = ''any''\<rparr>]) = Inr (7, [''acme''])
   \<and> calculateScore
       (Some \<lparr>ID = None, DateFound = None, Title = None, Company = Some ''Acme Corp'',
              Location = None, Link = None, Source = None, Snippet = None\<rparr>)
       (Some [\<lparr>Keyword = ''power'', Weight = 5, Type = ''title''\<rparr>])
     = Inl (TypeError ''Cannot read properties of undefined (reading toLowerCase)'')"
  by (simp add: validJob_def calculateScore_def allText_def isMatch_def toLowerCase_def
      toLowerCase_char_def)

lemma undefined_in_corpus: "sublist ''undefined'' (toLowerCase (a @ interpolate None @ b))"
  by (simp only: interpolate.simps toLowerCase_append toLowerCase_undefined sublist_appendI)

text \<open>
  C10.  When the organization, the location or the snippet of a listing is absent, the
  corpus of \<open>calculateScore\<close> contains the text \<open>undefined\<close>, and every any-field or
  negative rule whose lower-cased keyword occurs in \<open>undefined\<close> matches the listing.
\<close>

theorem calculateScore_undefined_matches:
  assumes "Company j = None \<or> Location j = None \<or> Snippet j = None"
    and "Type f = ''any'' \<or> Type f = ''negative''"
    and "sublist (toLowerCase (Keyword f)) ''undefined''"
  shows "sublist ''undefined'' (allText j)
         \<and> calculateScore (Some j) (Some [f]) = Inr (Weight f, [Keyword f])"
proof -
  have u: "sublist ''undefined'' (allText j)"
  proof -
    consider "Company j = None" | "Location j = None" | "Snippet j = None"
      using assms(1) by auto
    then show ?thesis
    proof cases
      case 1
      have "allText j = toLowerCase ((interpolate (Title j) @ '' '') @ interpolate None @
              ('' '' @ interpolate (Location j) @ '' '' @ interpolate (Snippet j)))"
        by (simp only: allText_def 1 append_assoc)
      then show ?thesis by (simp only: undefined_in_corpus)
    next
      case 2
      have "allText j = toLowerCase ((interpolate (Title j) @ '' '' @ interpolate (Company j) @ '' '')
              @ interpolate None @ ('' '' @ interpolate (Snippet j)))"
        by (simp only: allText_def 2 append_assoc)
      then show ?thesis by (simp only: undefined_in_corpus)
    next
      case 3
      have "allText j = toLowerCase ((interpolate (Title j) @ '' '' @ interpolate (Company j) @ '' ''
              @ interpolate (Location j) @ '' '') @ interpolate None @ [])"
        by (simp only: allText_def 3 append_assoc append_Nil2)
      then show ?thesis by (simp only: undefined_in_corpus)
    qed
  qed
  from assms(3) u have "sublist (toLowerCase (Keyword f)) (allText j)"
    by (rule sublist_order.order.trans)
  then have "isMatch j (allText j) f = Inr True"
    using assms(2) by (auto simp: isMatch_def includes_str_sublist)
  then have "calculateScore (Some j) (Some [f]) = Inr (Weight f, [Keyword f])"
    by (simp add: calculateScore_def)
  with u show ?thesis by simp
qed

theorem calculateScore_undefined_matches_witness:
  "allText \<lparr>ID = None, DateFound = None, Title = Some ''Data Analyst'', Company = None,
            Location = Some ''Berlin'', Link = None, Source = None, Snippet = Some ''Remote''\<rparr>
     = ''data analyst undefined berlin remote''
   \<and> calculateScore
     (Some \<lparr>ID = None, DateFound = None, Title = Some ''Data Analyst'', Company = None,
            Location = Some ''Berlin'', Link = None, Source = None, Snippet = Some ''Remote''\<rparr>)
     (Some [\<lparr>Keyword = ''Defi'', Weight = - 10, Type = ''negative''\<rparr>]) = Inr (- 10, [''Defi''])
   \<and> \<not> rule_matches
     \<lparr>ID = None, DateFound = None, Title = Some ''Data Analyst'', Company = None,
       Location = Some ''Berlin'', Link = None, Source = None, Snippet = Some ''Remote''\<rparr>
     \<lparr>Keyword = ''Defi'', Weight = - 10, Type = ''negative''\<rparr>"
proof -
  have k: "sublist (toLowerCase (Keyword \<lparr>Keyword = ''Defi'', Weight = - 10, Type = ''negative''\<rparr>))
             ''undefined''"
    by (simp add: toLowerCase_def toLowerCase_char_def includes_str_sublist [symmetric])
  have "calculateScore
     (Some \<lparr>ID = None, DateFound = None, Title = Some ''Data Analyst'', Company = None,
            Location = Some ''Berlin'', Link = None, Source = None, Snippet = Some ''Remote''\<rparr>)
     (Some [\<lparr>Keyword = ''Defi'', Weight = - 10, Type = ''negative''\<rparr>]) = Inr (- 10, [''Defi''])"
    using calculateScore_undefined_matches
      [of "\<lparr>ID = None, DateFound = None, Title = Some ''Data Analyst'', Company = None,
            Location = Some ''Berlin'', Link = None, Source = None, Snippet = Some ''Remote''\<rparr>"
          "\<lparr>Keyword = ''Defi'', Weight = - 10, Type = ''negative''\<rparr>"] k
    by simp
  moreover have "allText \<lparr>ID = None, DateFound = None, Title = Some ''Data Analyst'', Company = None,
            Location = Some ''Berlin'', Link = None, Source = None, Snippet = Some ''Remote''\<rparr>
     = ''data analyst undefined berlin remote''"
    by (simp add: allText_def toLowerCase_def toLowerCase_char_def)
  moreover have "\<not> rule_matches
     \<lparr>ID = None, DateFound = None, Title = Some ''Data Analyst'', Company = None,
       Location = Some ''Berlin'', Link = None, Source = None, Snippet = Some ''Remote''\<rparr>
     \<lparr>Keyword = ''Defi'', Weight = - 10, Type = ''negative''\<rparr>"
    by (simp add: rule_matches_def fieldText_def toLowerCase_def toLowerCase_char_def
        includes_str_sublist [symmetric])
  ultimately show ?thesis by simp
qed

section \<open>Properties of the pipeline\<close>








lemma list_all2_right_ex: "list_all2 P xs ys \<Longrightarrow> y \<in> set ys \<Longrightarrow> \<exists>x\<in>set xs. P x y"
  by (induction rule: list_all2_induct) auto

lemma set_firstPerLink: "set (firstPerLink js) \<subseteq> set js"
  by (induction js) auto








text \<open>
  C9.  Whatever the jobs and the filters, \<open>processJobs\<close> throws \<open>Missing required config
  fields: minScore or dedupeBy\<close> when \<open>config.minScore\<close> is 0, although \<open>getConfig\<close> accepts
  a Config tab whose \<open>minScore\<close> is 0 and returns the configuration with that value.
\<close>

theorem processJobs_minScore_zero:
  "(minScore cfg = 0 \<longrightarrow>
      processJobs gen rawJobs filters cfg
        = Inl (Error ''Missing required config fields: minScore or dedupeBy''))
   \<and> getConfig numberOfText (Some ''sheet-1'')
        (Some [(''Key'', CStr ''Value''), (''emailRecipient'', CStr ''me@example.com''),
               (''minScore'', CNum 0), (''topN'', CNum 10), (''dedupeBy'', CStr ''link''),
               (''dateFormat'', CStr ''yyyy-MM-dd'')])
      = Inr \<lparr>emailRecipient = ''me@example.com'', minScore = 0, topN = 10, dedupeBy = ''link'',
             dateFormat = ''yyyy-MM-dd'', coverLetterDocId = None\<rparr>"
proof -
  have a: "getConfig numberOfText (Some ''sheet-1'')
        (Some [(''Key'', CStr ''Value''), (''emailRecipient'', CStr ''me@example.com''),
               (''minScore'', CNum 0), (''topN'', CNum 10), (''dedupeBy'', CStr ''link''),
               (''dateFormat'', CStr ''yyyy-MM-dd'')])
      = Inr \<lparr>emailRecipient = ''me@example.com'', minScore = 0, topN = 10, dedupeBy = ''link'',
             dateFormat = ''yyyy-MM-dd'', coverLetterDocId = None\<rparr>"
    by code_simp
  show ?thesis unfolding a by (simp add: processJobs_def)
qed

theorem processJobs_minScore_zero_witness:
  "minScore (mockConfig\<lparr>minScore := 0\<rparr>) = 0
   \<and> processJobs (\<lambda>n. ''INFO-000'') mockJobs mockFilters (mockConfig\<lparr>minScore := 0\<rparr>)
       = Inl (Error ''Missing required config fields: minScore or dedupeBy'')"
  using processJobs_minScore_zero
    [of "mockConfig\<lparr>minScore := 0\<rparr>" "\<lambda>n. ''INFO-000''" mockJobs mockFilters]
  by simp

section \<open>Properties of the digest\<close>

lemma set_insertSorted: "set (insertSorted c x ys) = insert x (set ys)"
  by (induction ys) auto

lemma set_sortBy: "set (sortBy c xs) = set xs"
  by (induction xs) (auto simp: set_insertSorted)

lemma length_insertSorted: "length (insertSorted c x ys) = Suc (length ys)"
  by (induction ys) auto

lemma length_sortBy: "length (sortBy c xs) = length xs"
  by (induction xs) (auto simp: length_insertSorted)

lemma sorted_insertSorted:
  fixes f :: "'a \<Rightarrow> int"
  assumes "sorted_wrt (\<lambda>a b. f b \<le> f a) ys"
  shows "sorted_wrt (\<lambda>a b. f b \<le> f a) (insertSorted (\<lambda>a b. f b - f a) x ys)"
  using assms
proof (induction ys)
  case Nil
  then show ?case by simp
next
  case (Cons y ys)
  show ?case
  proof (cases "f y - f x \<le> 0")
    case True
    then have "\<forall>z\<in>set (y # ys). f z \<le> f x"
      using Cons.prems by fastforce
    with True Cons.prems show ?thesis by simp
  next
    case False
    with Cons show ?thesis by (auto simp: set_insertSorted)
  qed
qed

lemma sorted_sortBy:
  fixes f :: "'a \<Rightarrow> int"
  shows "sorted_wrt (\<lambda>a b. f b \<le> f a) (sortBy (\<lambda>a b. f b - f a) xs)"
  by (induction xs) (simp_all add: sorted_insertSorted)

lemma stable_insertSorted:
  fixes f :: "'a \<Rightarrow> int"
  shows "filter (\<lambda>j. f j = s) (insertSorted (\<lambda>a b. f b - f a) x ys)
          = (if f x = s then x # filter (\<lambda>j. f j = s) ys else filter (\<lambda>j. f j = s) ys)"
  by (induction ys) auto

lemma stable_sortBy:
  fixes f :: "'a \<Rightarrow> int"
  shows "filter (\<lambda>j. f j = s) (sortBy (\<lambda>a b. f b - f a) xs) = filter (\<lambda>j. f j = s) xs"
  by (induction xs) (simp_all add: stable_insertSorted)

lemma slice0_prefix: "prefix (slice0 n xs) xs"
  by (simp add: slice0_def take_is_prefix)

lemma length_slice0: "0 \<le> n \<Longrightarrow> int (length (slice0 n xs)) \<le> n"
  by (simp add: slice0_def)

lemma eligible_eq:
  "eligible cfg = (\<lambda>job. Status job = ''New'' \<and> minScore cfg \<le> Score job \<and> DateNotified job = [])"
  by (rule ext) (simp add: eligible_def)

lemma eligibleJobs_eq:
  "eligibleJobs cfg jobs = slice0 (topN cfg) (sortBy (\<lambda>a b. Score b - Score a) (filter (eligible cfg) jobs))"
  by (simp only: eligibleJobs_def eligible_eq)

lemma set_eligibleJobs: "set (eligibleJobs cfg jobs) \<subseteq> {j \<in> set jobs. eligible cfg j}"
proof -
  have "set (eligibleJobs cfg jobs) \<subseteq> set (sortBy (\<lambda>a b. Score b - Score a) (filter (eligible cfg) jobs))"
    unfolding eligibleJobs_eq by (rule set_mono_prefix) (rule slice0_prefix)
  then show ?thesis by (simp add: set_sortBy subset_iff)
qed

lemma sendJobDigest_count:
  assumes "sendJobDigest cfg mail st = (st', Inr n)" "Jobs st = Some rows"
  shows "n = length (eligibleJobs cfg rows)"
proof (cases "rows = []")
  case True
  then have "eligibleJobs cfg rows = []"
    by (simp add: eligibleJobs_eq slice0_def)
  with True assms show ?thesis
    by (simp add: sendJobDigest_def split: if_splits)
next
  case False
  show ?thesis
  proof (cases "eligibleJobs cfg rows = []")
    case True
    with False assms show ?thesis
      by (simp add: sendJobDigest_def split: if_splits)
  next
    case e: False
    with False assms show ?thesis
      by (simp add: sendJobDigest_def Let_def split: if_splits option.splits)
  qed
qed

text \<open>
  C2.  The digest selection takes at most \<open>topN\<close> listings (for a \<open>topN\<close> that is not
  negative; \<open>sendJobDigest\<close> throws when it is 0), and as many as \<open>sendJobDigest\<close> reports
  as emailed.  Every selected listing has the status \<open>New\<close>, a score of at least
  \<open>minScore\<close> and no notification date.  The selection is ordered by descending score,
  and the selected listings of one score are the first candidates of that score in the
  order of the Jobs tab.
\<close>

theorem eligibleJobs_selection:
  "(0 \<le> topN cfg \<longrightarrow> int (length (eligibleJobs cfg jobs)) \<le> topN cfg)
   \<and> (\<forall>j\<in>set (eligibleJobs cfg jobs).
         DateNotified j = [] \<and> Status j = ''New'' \<and> minScore cfg \<le> Score j)
   \<and> sorted_wrt (\<lambda>a b. Score b \<le> Score a) (eligibleJobs cfg jobs)
   \<and> (\<forall>s. prefix (filter (\<lambda>j. Score j = s) (eligibleJobs cfg jobs))
                   (filter (\<lambda>j. Score j = s) (filter (eligible cfg) jobs)))
   \<and> (\<forall>mail st st' n rows. sendJobDigest cfg mail st = (st', Inr n) \<and> Jobs st = Some rows \<and> 0 \<le> topN cfg
          \<longrightarrow> n = length (eligibleJobs cfg rows) \<and> int n \<le> topN cfg)"
proof -
  let ?sorted = "sortBy (\<lambda>a b. Score b - Score a) (filter (eligible cfg) jobs)"
  have def: "eligibleJobs cfg jobs = slice0 (topN cfg) ?sorted"
    by (rule eligibleJobs_eq)
  have len: "int (length (eligibleJobs cfg jobs')) \<le> topN cfg" if "0 \<le> topN cfg" for jobs'
    using that by (simp only: eligibleJobs_def length_slice0)
  have mem: "\<forall>j\<in>set (eligibleJobs cfg jobs).
         DateNotified j = [] \<and> Status j = ''New'' \<and> minScore cfg \<le> Score j"
    using set_eligibleJobs [of cfg jobs] by (auto simp: eligible_def)
  have "sorted_wrt (\<lambda>a b. Score b \<le> Score a) ?sorted"
    by (rule sorted_sortBy)
  then have srt: "sorted_wrt (\<lambda>a b. Score b \<le> Score a) (eligibleJobs cfg jobs)"
    unfolding def slice0_def by (simp add: sorted_wrt_take)
  have stb: "prefix (filter (\<lambda>j. Score j = s) (eligibleJobs cfg jobs))
                   (filter (\<lambda>j. Score j = s) (filter (eligible cfg) jobs))" for s
  proof -
    have "prefix (filter (\<lambda>j. Score j = s) (eligibleJobs cfg jobs)) (filter (\<lambda>j. Score j = s) ?sorted)"
      unfolding def by (rule filter_mono_prefix) (rule slice0_prefix)
    then show ?thesis by (simp only: stable_sortBy)
  qed
  have cnt: "n = length (eligibleJobs cfg rows) \<and> int n \<le> topN cfg"
    if "sendJobDigest cfg mail st = (st', Inr n)" "Jobs st = Some rows" "0 \<le> topN cfg"
    for mail st st' n rows
    using sendJobDigest_count [OF that(1,2)] len [OF that(3)] by simp
  from len mem srt stb cnt show ?thesis by blast
qed

lemma eligibleJobs_digestRows:
  "eligibleJobs digestConfig digestRows = [row ''2'' 10 ''New'' [], row ''5'' 10 ''New'' [], row ''7'' 7 ''New'' []]"
  by (simp add: eligibleJobs_def digestConfig_def digestRows_def row_def slice0_def)

theorem eligibleJobs_selection_witness:
  "0 \<le> topN digestConfig
   \<and> eligibleJobs digestConfig digestRows
       = [row ''2'' 10 ''New'' [], row ''5'' 10 ''New'' [], row ''7'' 7 ''New'' []]
   \<and> int (length (eligibleJobs digestConfig digestRows)) \<le> topN digestConfig"
proof -
  have t: "0 \<le> topN digestConfig" by (simp add: digestConfig_def)
  from eligibleJobs_selection [of digestConfig digestRows] t
  have "int (length (eligibleJobs digestConfig digestRows)) \<le> topN digestConfig" by blast
  with t eligibleJobs_digestRows show ?thesis by simp
qed




section \<open>Properties of appending\<close>

lemma appendLoop_inv:
  "appendLoop E b S acc = (rows, b') \<Longrightarrow>
     \<exists>new. rows = acc @ new
       \<and> Link ` set new \<subseteq> Link ` {j \<in> set b. \<not> missingFields j}
       \<and> (\<forall>j\<in>set b. \<not> missingFields j \<longrightarrow> Link j \<in> E \<union> S \<union> Link ` set new)
       \<and> list_all2 (\<lambda>j j'. Link j' = Link j \<and> missingFields j' = missingFields j) b b'"
proof (induction b arbitrary: S acc rows b')
  case Nil
  then show ?case by simp
next
  case (Cons job b)
  show ?case
  proof (cases "missingFields job \<or> Link job \<in> E \<or> Link job \<in> S")
    case True
    obtain r t where rt: "appendLoop E b S acc = (r, t)"
      by (cases "appendLoop E b S acc")
    with True Cons.prems have e: "rows = r" "b' = job # t"
      by (auto split: if_splits)
    from Cons.IH [OF rt] obtain new where n: "r = acc @ new"
       "Link ` set new \<subseteq> Link ` {j \<in> set b. \<not> missingFields j}"
       "\<forall>j\<in>set b. \<not> missingFields j \<longrightarrow> Link j \<in> E \<union> S \<union> Link ` set new"
       "list_all2 (\<lambda>j j'. Link j' = Link j \<and> missingFields j' = missingFields j) b t"
      by blast
    have "Link ` set new \<subseteq> Link ` {j \<in> set (job # b). \<not> missingFields j}"
      using n(2) by auto
    moreover have "\<forall>j\<in>set (job # b). \<not> missingFields j \<longrightarrow> Link j \<in> E \<union> S \<union> Link ` set new"
      using n(3) True by auto
    ultimately show ?thesis using e n(1,4) by auto
  next
    case False
    define job' where "job' = (if Status job \<in> set [''New'', ''Ignore'', ''Applied'', ''Interviewing'', ''Rejected'']
                     then job else job\<lparr>Status := ''Ignore''\<rparr>)"
    have l: "Link job' = Link job" and m: "missingFields job' = missingFields job"
      using False by (auto simp: job'_def missingFields_def)
    obtain r t where rt: "appendLoop E b (insert (Link job) S) (acc @ [job']) = (r, t)"
      by (cases "appendLoop E b (insert (Link job) S) (acc @ [job'])")
    with False Cons.prems have e: "rows = r" "b' = job' # t"
      by (auto simp: job'_def Let_def split: if_splits)
    from Cons.IH [OF rt] obtain new where n: "r = (acc @ [job']) @ new"
       "Link ` set new \<subseteq> Link ` {j \<in> set b. \<not> missingFields j}"
       "\<forall>j\<in>set b. \<not> missingFields j \<longrightarrow> Link j \<in> E \<union> insert (Link job) S \<union> Link ` set new"
       "list_all2 (\<lambda>j j'. Link j' = Link j \<and> missingFields j' = missingFields j) b t"
      by blast
    have 1: "rows = acc @ (job' # new)"
      using e n(1) by simp
    have 2: "Link ` set (job' # new) \<subseteq> Link ` {j \<in> set (job # b). \<not> missingFields j}"
      using n(2) l False by auto
    have 3: "\<forall>j\<in>set (job # b). \<not> missingFields j \<longrightarrow> Link j \<in> E \<union> S \<union> Link ` set (job' # new)"
      using n(3) l by auto
    have 4: "list_all2 (\<lambda>j j'. Link j' = Link j \<and> missingFields j' = missingFields j) (job # b) b'"
      using n(4) l m e by simp
    from 1 2 3 4 show ?thesis by blast
  qed
qed

lemma appendLoop_nothing:
  "\<forall>j\<in>set b. \<not> missingFields j \<longrightarrow> Link j \<in> E \<union> S \<Longrightarrow> appendLoop E b S acc = (acc, b)"
  by (induction b arbitrary: S acc) auto

lemma getExistingLinks_append:
  "getExistingLinks (rows @ new) = getExistingLinks rows \<union> {l \<in> Link ` set new. isHttpLink l}"
  by (auto simp: getExistingLinks_def)

text \<open>
  When every complete job of the batch has a link that contains \<open>http\<close>, a second call
  of \<open>appendJobs\<close> on the same store appends no row and returns 0, for the batch as the
  first call left it and for the batch as it was given: every link of the batch is then
  in the set \<open>getExistingLinks\<close> returns.
\<close>

lemma appendJobs_idempotent:
  assumes "appendJobs batch cfg st = (batch', st', Inr n)"
    and "\<forall>j\<in>set batch. \<not> missingFields j \<longrightarrow> isHttpLink (Link j)"
  shows "appendJobs batch' cfg st' = (batch', st', Inr 0)
         \<and> appendJobs batch cfg st' = (batch, st', Inr 0)"
proof -
  from assms(1) obtain rows where c: "dedupeBy cfg = ''link''" "minScore cfg \<noteq> 0"
      "\<not> falsy (SHEET_ID st)" "Jobs st = Some rows"
    by (auto simp: appendJobs_def split: if_splits option.splits)
  obtain new b where lp: "appendLoop (getExistingLinks rows) batch {} [] = (new, b)"
    by (cases "appendLoop (getExistingLinks rows) batch {} []")
  with assms(1) c have r: "batch' = b" "st' = st\<lparr>Jobs := Some (rows @ new)\<rparr>"
    by (auto simp: appendJobs_def)
  from appendLoop_inv [OF lp] have i: "Link ` set new \<subseteq> Link ` {j \<in> set batch. \<not> missingFields j}"
      "\<forall>j\<in>set batch. \<not> missingFields j \<longrightarrow> Link j \<in> getExistingLinks rows \<union> Link ` set new"
      "list_all2 (\<lambda>j j'. Link j' = Link j \<and> missingFields j' = missingFields j) batch b"
    by auto
  have h: "\<forall>l\<in>Link ` set new. isHttpLink l"
    using i(1) assms(2) by auto
  let ?E = "getExistingLinks (rows @ new)"
  have E: "getExistingLinks rows \<union> Link ` set new \<subseteq> ?E"
    using h by (auto simp: getExistingLinks_append)
  have 1: "\<forall>j\<in>set batch. \<not> missingFields j \<longrightarrow> Link j \<in> ?E \<union> {}"
    using i(2) E by auto
  have 2: "\<forall>j\<in>set b. \<not> missingFields j \<longrightarrow> Link j \<in> ?E \<union> {}"
  proof
    fix j' assume "j' \<in> set b"
    from list_all2_right_ex [OF i(3) this]
    obtain j where "j \<in> set batch" "Link j' = Link j" "missingFields j' = missingFields j"
      by blast
    with 1 show "\<not> missingFields j' \<longrightarrow> Link j' \<in> ?E \<union> {}" by auto
  qed
  have s: "Jobs st' = Some (rows @ new)" "\<not> falsy (SHEET_ID st')" "st'\<lparr>Jobs := Some (rows @ new)\<rparr> = st'"
    using r(2) c(3) by simp_all
  have "appendJobs b cfg st' = (b, st', Inr 0)"
    using c(1,2) s appendLoop_nothing [OF 2, of "[]"] by (simp add: appendJobs_def)
  moreover have "appendJobs batch cfg st' = (batch, st', Inr 0)"
    using c(1,2) s appendLoop_nothing [OF 1, of "[]"] by (simp add: appendJobs_def)
  ultimately show ?thesis using r(1) by simp
qed

lemma appendJobs_appendBatch:
  "appendJobs appendBatch mockConfig emptyStore = (appendedBatch, appendedStore, Inr 3)"
  by (simp add: appendJobs_def mockConfig_def emptyStore_def appendBatch_def appendedBatch_def
      appendedStore_def getExistingLinks_def missingFields_def row_def Let_def)

lemma appendJobs_appendBatch_again:
  "appendJobs appendBatch mockConfig emptyStore = (appendedBatch, appendedStore, Inr 3)
   \<and> appendJobs appendedBatch mockConfig appendedStore = (appendedBatch, appendedStore, Inr 0)
   \<and> appendJobs appendBatch mockConfig appendedStore = (appendBatch, appendedStore, Inr 0)"
proof -
  have h: "\<forall>j\<in>set appendBatch. \<not> missingFields j \<longrightarrow> isHttpLink (Link j)"
    by (simp add: appendBatch_def row_def)
  from appendJobs_idempotent [OF appendJobs_appendBatch h] appendJobs_appendBatch
  show ?thesis by simp
qed

text \<open>
  C5.  A second call of \<open>appendJobs\<close> with the same batch on the same store is to append
  no row and return 0, every link of the batch being in the set \<open>getExistingLinks\<close>
  returns.  The code does so for links that contain \<open>http\<close> and misses the others:
  \<open>appendJobs\<close> takes a job with any link that is not empty, but \<open>getExistingLinks\<close>
  leaves a link without \<open>http\<close> out of its set.  The job with an \<open>ftp\<close> link is appended
  by the first call and again by the second, which returns 1, although \<open>appendJobs\<close> is
  to skip the duplicates by link that are in the Jobs tab or in the batch; within one
  batch the same link is skipped the second time.
\<close>

theorem appendJobs_ftp_link_appended_twice:
  "appendJobs [ftpJob] mockConfig emptyStore
     = ([ftpJob], \<lparr>SHEET_ID = Some ''sheet-1'', Jobs = Some [ftpJob]\<rparr>, Inr 1)
   \<and> appendJobs [ftpJob] mockConfig \<lparr>SHEET_ID = Some ''sheet-1'', Jobs = Some [ftpJob]\<rparr>
     = ([ftpJob], \<lparr>SHEET_ID = Some ''sheet-1'', Jobs = Some [ftpJob, ftpJob]\<rparr>, Inr 1)
   \<and> getExistingLinks [ftpJob] = {}
   \<and> appendJobs [ftpJob, ftpJob] mockConfig emptyStore
     = ([ftpJob, ftpJob], \<lparr>SHEET_ID = Some ''sheet-1'', Jobs = Some [ftpJob]\<rparr>, Inr 1)"
  by (simp add: appendJobs_def mockConfig_def emptyStore_def getExistingLinks_def
      missingFields_def ftpJob_def row_def Let_def)

section \<open>Properties of the scraper\<close>

text \<open>
  The jobs that the loops collect are, their identifiers aside, those of the items and
  of the sources one by one, whatever the counter holds.
\<close>

lemma itemLoop_withoutID:
  "map withoutID (fst (itemLoop idOf name day items n jobs))
     = map withoutID jobs @ map withoutID (fst (itemLoop idOf' name day items 0 []))"
proof (induction items arbitrary: n jobs idOf)
  case Nil
  then show ?case by simp
next
  case (Cons i items)
  show ?case
  proof (cases "orElse (link_text i) [] = []")
    case True
    then show ?thesis using Cons [of idOf n jobs] Cons [of idOf' 0 "[]"] by simp
  next
    case False
    let ?j = "\<lambda>v. \<lparr>ID = Some v, DateFound = Some day,
                Title = Some (orElse (title_text i) ''Unknown Title''),
                Company = Some (orElse (company_text i) []),
                Location = Some (orElse (location_text i) []),
                Link = Some (orElse (link_text i) []),
                Source = Some name,
                Snippet = Some (take 500 (orElse (description_text i) []))\<rparr>"
    have w: "withoutID (?j (idOf n)) = withoutID (?j (idOf' 0))"
      by (simp add: withoutID_def)
    from False show ?thesis
      using Cons [of idOf "Suc n" "jobs @ [?j (idOf n)]"]
        Cons [of idOf' "Suc 0" "[] @ [?j (idOf' 0)]"] w
      by simp
  qed
qed

lemma fetchSingleRSS_fails:
  "fetchSingleRSS web idOf logs url name day k = Inl e \<Longrightarrow>
   fetchSingleRSS web idOf logs url name day n = Inl e"
  by (auto simp: fetchSingleRSS_def split: sum.splits prod.splits)

lemma fetchSingleRSS_withoutID:
  assumes "fetchSingleRSS web idOf logs (URL s) (SourceName s) day n = Inr (jobs, m)"
  shows "map withoutID jobs = fetchedFrom web idOf logs day s"
proof -
  from assms obtain items where i: "fetchItems web (URL s) (SourceName s) day = Inr items"
    and j: "jobs = fst (itemLoop idOf (SourceName s) day items n [])"
    by (auto simp: fetchSingleRSS_def split: sum.splits prod.splits)
  have "fetchedFrom web idOf logs day s
          = map withoutID (fst (itemLoop idOf (SourceName s) day items 0 []))"
    using i by (simp add: fetchedFrom_def fetchSingleRSS_def split: prod.splits)
  then show ?thesis
    using j itemLoop_withoutID [of idOf "SourceName s" day items n "[]" idOf] by simp
qed

lemma fetchedFrom_fails:
  "fetchSingleRSS web idOf logs (URL s) (SourceName s) day k = Inl e \<Longrightarrow>
   fetchedFrom web idOf logs day s = []"
  using fetchSingleRSS_fails [of web idOf logs "URL s" "SourceName s" day k e 0]
  by (simp add: fetchedFrom_def)

lemma fetchedFrom_invalid:
  "SourceName s = [] \<or> URL s = [] \<Longrightarrow> fetchedFrom web idOf logs day s = []"
  by (auto simp: fetchedFrom_def fetchSingleRSS_def fetchItems_def)

lemma scrapeLoop_fetchedFrom:
  "map withoutID (fst (scrapeLoop web idOf logs day sources n jobs))
     = map withoutID jobs @ concat (map (fetchedFrom web idOf logs day) sources)"
proof (induction sources arbitrary: n jobs)
  case Nil
  then show ?case by simp
next
  case (Cons s sources)
  show ?case
  proof (cases "SourceName s = [] \<or> URL s = []")
    case True
    then show ?thesis using Cons [of n jobs] fetchedFrom_invalid [OF True] by simp
  next
    case False
    show ?thesis
    proof (cases "fetchSingleRSS web idOf logs (URL s) (SourceName s) day (logged logs n)")
      case (Inl e)
      with False show ?thesis
        using Cons [of "logged logs n" jobs] fetchedFrom_fails [OF Inl] by simp
    next
      case (Inr r)
      obtain sourceJobs n' where r: "r = (sourceJobs, n')" by (cases r)
      with Inr False show ?thesis
        using Cons [of "logged logs n'" "jobs @ sourceJobs"]
          fetchSingleRSS_withoutID [of web idOf logs s day "logged logs n" sourceJobs n']
        by simp
    qed
  qed
qed

text \<open>
  C7.  When \<open>fetchSingleRSS\<close> throws for a source, \<open>scrapeJobs\<close> does not throw: it
  returns, in the order of the sources, the jobs that \<open>fetchSingleRSS\<close> returns for every
  source before and for every source after the failing one, their identifiers aside.
\<close>

theorem scrapeJobs_isolates_failure:
  assumes "fetchSingleRSS web idOf logs (URL s) (SourceName s) day k = Inl e"
  shows "\<exists>jobs m. scrapeJobs web idOf logs day (before @ s # after) n = Inr (jobs, m)
           \<and> map withoutID jobs
               = concat (map (fetchedFrom web idOf logs day) before)
                 @ concat (map (fetchedFrom web idOf logs day) after)"
proof -
  obtain jobs m where l: "scrapeLoop web idOf logs day (before @ s # after) (logged logs n) [] = (jobs, m)"
    by (cases "scrapeLoop web idOf logs day (before @ s # after) (logged logs n) []")
  then have r: "scrapeJobs web idOf logs day (before @ s # after) n = Inr (jobs, logged logs m)"
    by (simp add: scrapeJobs_def)
  have "map withoutID jobs = concat (map (fetchedFrom web idOf logs day) (before @ s # after))"
    using scrapeLoop_fetchedFrom [of web idOf logs day "before @ s # after" "logged logs n" "[]"] l
    by simp
  then have "map withoutID jobs
               = concat (map (fetchedFrom web idOf logs day) before)
                 @ concat (map (fetchedFrom web idOf logs day) after)"
    by (simp add: fetchedFrom_fails [OF assms])
  with r show ?thesis by blast
qed

lemma scrapeJobs_mock:
  "scrapeJobs mockFetch mockID True ''2025-09-13'' [mockRSS, invalidRSS, mockRSS] 0
     = Inr ([\<lparr>ID = Some ''INFO-003'', DateFound = Some ''2025-09-13'', Title = Some ''Test Job'',
              Company = Some [], Location = Some [], Link = Some ''https://example.com/job1'',
              Source = Some ''Mock RSS'', Snippet = Some ''Test job description''\<rparr>,
             \<lparr>ID = Some ''INFO-008'', DateFound = Some ''2025-09-13'', Title = Some ''Test Job'',
              Company = Some [], Location = Some [], Link = Some ''https://example.com/job1'',
              Source = Some ''Mock RSS'', Snippet = Some ''Test job description''\<rparr>], 11)"
  by (simp add: scrapeJobs_def fetchSingleRSS_def fetchItems_def mockFetch_def mockRSS_def
      invalidRSS_def mockID_def logged_def)

theorem scrapeJobs_isolates_failure_witness:
  "fetchSingleRSS mockFetch mockID True (URL invalidRSS) (SourceName invalidRSS) ''2025-09-13'' 0
     = Inl (Error ''HTTP fetch failed: XML parsing failed: Invalid XML structure'')
   \<and> scrapeJobs mockFetch mockID True ''2025-09-13'' [mockRSS, invalidRSS, mockRSS] 0
     = Inr ([\<lparr>ID = Some ''INFO-003'', DateFound = Some ''2025-09-13'', Title = Some ''Test Job'',
              Company = Some [], Location = Some [], Link = Some ''https://example.com/job1'',
              Source = Some ''Mock RSS'', Snippet = Some ''Test job description''\<rparr>,
             \<lparr>ID = Some ''INFO-008'', DateFound = Some ''2025-09-13'', Title = Some ''Test Job'',
              Company = Some [], Location = Some [], Link = Some ''https://example.com/job1'',
              Source = Some ''Mock RSS'', Snippet = Some ''Test job description''\<rparr>], 11)
   \<and> concat (map (fetchedFrom mockFetch mockID True ''2025-09-13'') [mockRSS])
       @ concat (map (fetchedFrom mockFetch mockID True ''2025-09-13'') [mockRSS])
     = [\<lparr>ID = None, DateFound = Some ''2025-09-13'', Title = Some ''Test Job'',
         Company = Some [], Location = Some [], Link = Some ''https://example.com/job1'',
         Source = Some ''Mock RSS'', Snippet = Some ''Test job description''\<rparr>,
        \<lparr>ID = None, DateFound = Some ''2025-09-13'', Title = Some ''Test Job'',
         Company = Some [], Location = Some [], Link = Some ''https://example.com/job1'',
         Source = Some ''Mock RSS'', Snippet = Some ''Test job description''\<rparr>]"
proof -
  have f: "fetchSingleRSS mockFetch mockID True (URL invalidRSS) (SourceName invalidRSS) ''2025-09-13'' 0
     = Inl (Error ''HTTP fetch failed: XML parsing failed: Invalid XML structure'')"
    by (simp add: fetchSingleRSS_def fetchItems_def mockFetch_def invalidRSS_def)
  from scrapeJobs_isolates_failure [OF f, of "[mockRSS]" "[mockRSS]" 0] scrapeJobs_mock
  have "concat (map (fetchedFrom mockFetch mockID True ''2025-09-13'') [mockRSS])
       @ concat (map (fetchedFrom mockFetch mockID True ''2025-09-13'') [mockRSS])
     = map withoutID [\<lparr>ID = Some ''INFO-003'', DateFound = Some ''2025-09-13'', Title = Some ''Test Job'',
              Company = Some [], Location = Some [], Link = Some ''https://example.com/job1'',
              Source = Some ''Mock RSS'', Snippet = Some ''Test job description''\<rparr>,
             \<lparr>ID = Some ''INFO-008'', DateFound = Some ''2025-09-13'', Title = Some ''Test Job'',
              Company = Some [], Location = Some [], Link = Some ''https://example.com/job1'',
              Source = Some ''Mock RSS'', Snippet = Some ''Test job description''\<rparr>]"
    by simp
  then show ?thesis using f scrapeJobs_mock by (simp add: withoutID_def)
qed

end
